theory Spec2Isabelle
  imports Complex_Main
begin

section \<open>The five-point essential-matrix solver (vpgl\_em\_compute\_5\_point)\<close>

text \<open>
  The solver is a class template over a scalar type \<open>T\<close> with two fields,
  \<open>verbose\<close> and \<open>tolerance\<close>.  Scalars (\<open>T\<close>, \<open>double\<close>) are idealised
  as \<^typ>\<open>real\<close>: the statements below are about the shape of the data, the indices that
  are read and written and the algebraic form of what is computed, not about rounding.
\<close>

subsection \<open>Data\<close>

record vgl_point_2d =
  px :: real
  py :: real

text \<open>A \<open>vnl_matrix\<close> is stored as the list of its rows.\<close>

type_synonym vnl_matrix = "real list list"

definition has_dims :: "nat \<Rightarrow> nat \<Rightarrow> vnl_matrix \<Rightarrow> bool" where
  "has_dims r c m = (length m = r \<and> list_all (\<lambda>row. length row = c) m)"

text \<open>
  \<open>vnl_matrix<double> m(r, c)\<close> allocates without initialising; both matrices that
  \<open>compute\<close> allocates this way are completely overwritten before they are read.
\<close>

definition new_matrix :: "nat \<Rightarrow> nat \<Rightarrow> vnl_matrix" where
  "new_matrix r c = replicate r (replicate c 0)"

text \<open>
  A \<open>vpgl_essential_matrix\<close> is built from the \<open>vnl_matrix_fixed<T,3,3>\<close> that is
  handed to its constructor; the value is identified with that 3 by 3 matrix.
\<close>

datatype vpgl_essential_matrix = vpgl_essential_matrix (get_matrix: "real list list")

record vpgl_em_compute_5_point =
  verbose :: bool
  tolerance :: real

subsection \<open>The polynomial type\<close>

text \<open>
  An exponent row of a polynomial in the four variables \<open>x, y, z, w\<close> that
  \<open>compute_constraint_polynomials\<close> sets up (\<open>exps\<close> is a 4 by 4 matrix).
\<close>

type_synonym monomial = "nat \<times> nat \<times> nat \<times> nat"

text \<open>
  Modelled from the spec: the class \<open>vnl_real_npolynomial\<close> belongs to the vnl library,
  which the solver only includes.  The spec describes it as a sum of terms, each a real coefficient times a monomial,
  in coefficient-and-exponent representation, with addition, subtraction, multiplication and
  coefficient lookup by exponent triple.  A polynomial is the list of its stored terms: term
  \<open>i\<close> pairs \<open>coefficients()[i]\<close> with row \<open>i\<close> of \<open>polyn()\<close>.
\<close>

type_synonym vnl_real_npolynomial = "(real \<times> monomial) list"

text \<open>
  Modelled from the spec: adding one term to a sum of terms combines it with the stored
  term of the same monomial, if there is one.
\<close>

fun add_term :: "real \<times> monomial \<Rightarrow> vnl_real_npolynomial \<Rightarrow> vnl_real_npolynomial" where
  "add_term t [] = [t]"
| "add_term t (u # us) =
     (if snd t = snd u then (fst u + fst t, snd u) # us else u # add_term t us)"

text \<open>
  Modelled from the spec: a polynomial is kept as a sum of terms with distinct monomials,
  which is what coefficient lookup by exponent triple presupposes; terms whose coefficient
  has become zero are not stored.
\<close>

definition simplify :: "vnl_real_npolynomial \<Rightarrow> vnl_real_npolynomial" where
  "simplify ts = filter (\<lambda>t. fst t \<noteq> 0) (foldl (\<lambda>acc t. add_term t acc) [] ts)"

text \<open>Modelled from the spec: addition of polynomials.\<close>

definition padd :: "vnl_real_npolynomial \<Rightarrow> vnl_real_npolynomial \<Rightarrow> vnl_real_npolynomial" where
  "padd p q = simplify (p @ q)"

text \<open>Modelled from the spec: subtraction of polynomials.\<close>

definition psub :: "vnl_real_npolynomial \<Rightarrow> vnl_real_npolynomial \<Rightarrow> vnl_real_npolynomial" where
  "psub p q = simplify (p @ map (\<lambda>t. (- fst t, snd t)) q)"

text \<open>Modelled from the spec: the product of two monomials adds the exponents.\<close>

fun mono_mult :: "monomial \<Rightarrow> monomial \<Rightarrow> monomial" where
  "mono_mult (a, b, c, d) (a', b', c', d') = (a + a', b + b', c + c', d + d')"

text \<open>Modelled from the spec: multiplication of polynomials, term by term.\<close>

definition pmult :: "vnl_real_npolynomial \<Rightarrow> vnl_real_npolynomial \<Rightarrow> vnl_real_npolynomial" where
  "pmult p q =
     simplify (concat (map (\<lambda>t. map (\<lambda>u. (fst t * fst u, mono_mult (snd t) (snd u))) q) p))"

text \<open>Modelled from the spec: multiplication of a polynomial by a scalar.\<close>

definition pscale :: "vnl_real_npolynomial \<Rightarrow> real \<Rightarrow> vnl_real_npolynomial" where
  "pscale p k = map (\<lambda>t. (fst t * k, snd t)) p"

text \<open>The value of a polynomial at a point \<open>(x, y, z, w)\<close>.\<close>

fun mono_eval :: "monomial \<Rightarrow> real \<times> real \<times> real \<times> real \<Rightarrow> real" where
  "mono_eval (a, b, c, d) (x, y, z, w) = x ^ a * y ^ b * z ^ c * w ^ d"

definition peval :: "vnl_real_npolynomial \<Rightarrow> real \<times> real \<times> real \<times> real \<Rightarrow> real" where
  "peval p v = sum_list (map (\<lambda>t. fst t * mono_eval (snd t) v) p)"

subsection \<open>Coefficient lookup\<close>

text \<open>
  \<open>get_coeff\<close> compares its \<open>int\<close> arguments with the \<open>unsigned\<close> entries of
  \<open>polyn()\<close>; the comparison converts the \<open>int\<close> to \<open>unsigned\<close>.
\<close>

definition to_unsigned :: "int \<Rightarrow> nat" where
  "to_unsigned v = nat (v mod 2 ^ 32)"

text \<open>
  The loop over the rows of \<open>polyn()\<close>, from row 0 upwards, as a recursion over the
  stored terms: the first row whose first three exponents match decides; \<open>-1\<close> is
  returned when the rows are exhausted.
\<close>

fun get_coeff :: "vnl_real_npolynomial \<Rightarrow> int \<Rightarrow> int \<Rightarrow> int \<Rightarrow> real" where
  "get_coeff [] x_p y_p z_p = - 1"
| "get_coeff ((k, (a, b, c, d)) # rest) x_p y_p z_p =
     (if to_unsigned x_p = a \<and> to_unsigned y_p = b \<and> to_unsigned z_p = c then k
      else get_coeff rest x_p y_p z_p)"

subsection \<open>The coefficient matrix and the Groebner basis\<close>

text \<open>
  The exponent triples of the twenty columns, in the order of the source:
  \<open>x3 x2y xy2 y3 x2z xyz y2z xz2 yz2 z3 x2 xy y2 xz yz z2 x y z 1\<close>.
\<close>

definition monomial_order :: "(int \<times> int \<times> int) list" where
  "monomial_order =
     [(3, 0, 0), (2, 1, 0), (1, 2, 0), (0, 3, 0), (2, 0, 1),
      (1, 1, 1), (0, 2, 1), (1, 0, 2), (0, 1, 2), (0, 0, 3),
      (2, 0, 0), (1, 1, 0), (0, 2, 0), (1, 0, 1), (0, 1, 1),
      (0, 0, 2), (1, 0, 0), (0, 1, 0), (0, 0, 1), (0, 0, 0)]"

text \<open>Row \<open>i\<close> of the 10 by 20 matrix \<open>A\<close>: the twenty \<open>A.put(i, k, get_coeff(...))\<close>.\<close>

definition coeff_row :: "vnl_real_npolynomial \<Rightarrow> real list" where
  "coeff_row p =
     [get_coeff p 3 0 0, get_coeff p 2 1 0, get_coeff p 1 2 0, get_coeff p 0 3 0,
      get_coeff p 2 0 1, get_coeff p 1 1 1, get_coeff p 0 2 1, get_coeff p 1 0 2,
      get_coeff p 0 1 2, get_coeff p 0 0 3, get_coeff p 2 0 0, get_coeff p 1 1 0,
      get_coeff p 0 2 0, get_coeff p 1 0 1, get_coeff p 0 1 1, get_coeff p 0 0 2,
      get_coeff p 1 0 0, get_coeff p 0 1 0, get_coeff p 0 0 1, get_coeff p 0 0 0]"

definition coefficient_matrix :: "vnl_real_npolynomial list \<Rightarrow> vnl_matrix" where
  "coefficient_matrix constraints = map (\<lambda>i. coeff_row (constraints ! i)) [0..<10]"

text \<open>
  The linear-algebra routines the solver calls (\<open>vnl_svd\<close>, \<open>vnl_rank_row_reduce\<close>,
  \<open>vnl_real_eigensystem\<close>) are numerical routines of the vnl library, which the solver
  only includes; they are parameters of the model.  \<open>svd_V tol A j i\<close> is \<open>vnl_svd<T>(A, tol).V().get(j, i)\<close>;
  \<open>eig_D M i\<close> and \<open>eig_V M i j\<close> are \<open>eigs.D.get(i, i)\<close> and \<open>eigs.V.get(i, j)\<close> of
  \<open>vnl_real_eigensystem eigs(M)\<close>.
\<close>

record backend =
  svd_V :: "real \<Rightarrow> vnl_matrix \<Rightarrow> nat \<Rightarrow> nat \<Rightarrow> real"
  row_reduce :: "vnl_matrix \<Rightarrow> vnl_matrix"
  eig_D :: "vnl_matrix \<Rightarrow> nat \<Rightarrow> complex"
  eig_V :: "vnl_matrix \<Rightarrow> nat \<Rightarrow> nat \<Rightarrow> complex"

text \<open>
  \<open>compute_groebner_basis\<close>.  \<open>None\<close> stands for a run without a defined result: one
  of the two assertions on the size of \<open>groebner_basis\<close> fails, or \<open>constraints[i]\<close>
  is read beyond the end of the vector.  The row-reduced matrix is bound to \<open>rrefed\<close>;
  the copy loop reads \<open>A.get(i, j+10)\<close>.
\<close>

definition compute_groebner_basis ::
  "backend \<Rightarrow> vnl_real_npolynomial list \<Rightarrow> vnl_matrix \<Rightarrow> vnl_matrix option" where
  "compute_groebner_basis la constraints groebner_basis =
     (if \<not> has_dims 10 10 groebner_basis then None
      else if length constraints < 10 then None
      else
        let A = coefficient_matrix constraints;
            rrefed = row_reduce la A
        in Some (map (\<lambda>i. map (\<lambda>j. A ! i ! (j + 10)) [0..<10]) [0..<10]))"

subsection \<open>Stage 1: the nullspace basis\<close>

text \<open>Row \<open>i\<close> of the 5 by 9 epipolar constraint matrix: the nine \<open>A.put(i, k, ...)\<close>.\<close>

definition epipolar_row :: "vgl_point_2d \<Rightarrow> vgl_point_2d \<Rightarrow> real list" where
  "epipolar_row r l =
     [px r * px l, py r * px l, px l,
      px r * py l, py r * py l, py l,
      px r, py r, 1]"

definition epipolar_matrix :: "vgl_point_2d list \<Rightarrow> vgl_point_2d list \<Rightarrow> vnl_matrix" where
  "epipolar_matrix right_points left_points =
     map (\<lambda>i. epipolar_row (right_points ! i) (left_points ! i)) [0..<5]"

text \<open>
  \<open>compute_nullspace_basis\<close> pushes four vectors onto \<open>basis\<close>, one for each
  \<open>i = 5, 6, 7, 8\<close>, with \<open>basis_vector[j] = V.get(j, i)\<close>.  The source reads
  \<open>right_points[i]\<close> and \<open>left_points[i]\<close> for \<open>i < 5\<close> without a check; \<open>None\<close>
  marks a read beyond the end of either vector.
\<close>

definition compute_nullspace_basis ::
  "backend \<Rightarrow> real \<Rightarrow> vgl_point_2d list \<Rightarrow> vgl_point_2d list \<Rightarrow> real list list
     \<Rightarrow> real list list option" where
  "compute_nullspace_basis la tol right_points left_points basis =
     (if length right_points < 5 \<or> length left_points < 5 then None
      else
        let A = epipolar_matrix right_points left_points;
            V = svd_V la tol A
        in Some (basis @ map (\<lambda>i. map (\<lambda>j. V j i) [0..<9]) [5..<9]))"

subsection \<open>Stage 2: the constraint polynomials\<close>

text \<open>\<open>exps\<close>: the 4 by 4 identity with entry \<open>(3, 3)\<close> reset to 0.\<close>

definition exps :: "monomial list" where
  "exps = [(1, 0, 0, 0), (0, 1, 0, 0), (0, 0, 1, 0), (0, 0, 0, 0)]"

text \<open>
  Modelled from the spec: \<open>set(coeffs, exps)\<close> stores the given coefficients against the
  given exponent rows.
\<close>

definition pset :: "real list \<Rightarrow> monomial list \<Rightarrow> vnl_real_npolynomial" where
  "pset coeffs es = zip coeffs es"

definition entry_polynomial :: "real list list \<Rightarrow> nat \<Rightarrow> vnl_real_npolynomial" where
  "entry_polynomial basis i =
     pset [basis ! 0 ! i, basis ! 1 ! i, basis ! 2 ! i, basis ! 3 ! i] exps"

text \<open>
  The bracketed sum of the three loops, for the row offset \<open>r\<close> (0, 3 or 6) and the loop
  index \<open>i\<close>:
  \<open>E[r] * E[3*(i%3)+0]*2 + E[r+1] * E[3*(i%3)+1]*2 + E[r+2] * E[3*(i%3)+2]*2\<close>.
\<close>

definition bracket :: "vnl_real_npolynomial list \<Rightarrow> nat \<Rightarrow> nat \<Rightarrow> vnl_real_npolynomial" where
  "bracket E r i =
     padd (padd (pscale (pmult (E ! r) (E ! (3 * (i mod 3) + 0))) 2)
                (pscale (pmult (E ! (r + 1)) (E ! (3 * (i mod 3) + 1))) 2))
          (pscale (pmult (E ! (r + 2)) (E ! (3 * (i mod 3) + 2))) 2)"

text \<open>
  \<open>compute_constraint_polynomials\<close>.  The determinant is pushed first; the first loop
  pushes nine more polynomials; the second and the third loop update \<open>constraints[i]\<close>
  for \<open>i = 0, ..., 8\<close>.  \<open>None\<close> marks a read of \<open>basis[k]\<close>, \<open>k < 4\<close>, beyond the
  end of the vector.
\<close>

definition compute_constraint_polynomials ::
  "real list list \<Rightarrow> vnl_real_npolynomial list \<Rightarrow> vnl_real_npolynomial list option" where
  "compute_constraint_polynomials basis constraints =
     (if length basis < 4 then None
      else
        let E = map (entry_polynomial basis) [0..<9];
            det_term_1 = pmult (E ! 4) (psub (pmult (E ! 0) (E ! 8)) (pmult (E ! 6) (E ! 2)));
            det_term_2 = pmult (E ! 5) (psub (pmult (E ! 1) (E ! 6)) (pmult (E ! 0) (E ! 7)));
            det_term_3 = pmult (E ! 3) (psub (pmult (E ! 2) (E ! 7)) (pmult (E ! 1) (E ! 8)));
            constraints1 = constraints @ [padd (padd det_term_1 det_term_2) det_term_3];
            sum_of_squares =
              foldl (\<lambda>s i. padd s (pmult (E ! i) (E ! i))) (pmult (E ! 0) (E ! 0)) [1..<9];
            constraints2 =
              foldl (\<lambda>cs i. cs @ [psub (pmult (E ! (i mod 3)) (bracket E 0 i))
                                         (pmult (E ! i) sum_of_squares)])
                    constraints1 [0..<9];
            constraints3 =
              foldl (\<lambda>cs i. cs[i := padd (cs ! i) (pmult (E ! (i mod 3 + 3)) (bracket E 3 i))])
                    constraints2 [0..<9];
            constraints4 =
              foldl (\<lambda>cs i. cs[i := padd (cs ! i) (pmult (E ! (i mod 3 + 6)) (bracket E 6 i))])
                    constraints3 [0..<9]
        in Some constraints4)"

subsection \<open>Stage 4: the action matrix\<close>

definition put :: "nat \<Rightarrow> nat \<Rightarrow> real \<Rightarrow> vnl_matrix \<Rightarrow> vnl_matrix" where
  "put i j v m = m[i := (m ! i)[j := v]]"

text \<open>
  \<open>compute_action_matrix\<close>.  Both matrices are 10 by 10 in the one call there is;
  \<open>None\<close> marks any other size, for which \<open>get_row\<close>, \<open>set_row\<close> and \<open>put\<close> would leave
  the matrices.
\<close>

definition compute_action_matrix :: "vnl_matrix \<Rightarrow> vnl_matrix \<Rightarrow> vnl_matrix option" where
  "compute_action_matrix groebner_basis action_matrix =
     (if \<not> has_dims 10 10 groebner_basis \<or> \<not> has_dims 10 10 action_matrix then None
      else
        let m0 = map (map (\<lambda>_. 0)) action_matrix;
            m1 = m0[0 := groebner_basis ! 0];
            m2 = m1[1 := groebner_basis ! 1];
            m3 = m2[2 := groebner_basis ! 2];
            m4 = m3[3 := groebner_basis ! 4];
            m5 = m4[4 := groebner_basis ! 5];
            m6 = m5[5 := groebner_basis ! 7];
            m7 = map (map (\<lambda>v. v * (- 1))) m6
        in Some (put 9 6 1 (put 8 3 1 (put 7 1 1 (put 6 0 1 m7)))))"

subsection \<open>Stage 5: the essential matrices\<close>

text \<open>
  Modelled from the spec: the eigensystem of the 10 by 10 action matrix is a 10 by 10
  complex eigensystem; \<open>eigs.D.size()\<close> is the number of rows of the matrix that
  \<open>vnl_real_eigensystem\<close> was built from.
\<close>

definition eig_size :: "vnl_matrix \<Rightarrow> nat" where
  "eig_size M = length M"

text \<open>Arithmetic on \<open>vnl_vector_fixed<T, 9>\<close>.\<close>

definition vscale :: "real \<Rightarrow> real list \<Rightarrow> real list" where
  "vscale k v = map (\<lambda>j. k * v ! j) [0..<9]"

definition vadd :: "real list \<Rightarrow> real list \<Rightarrow> real list" where
  "vadd u v = map (\<lambda>j. u ! j + v ! j) [0..<9]"

definition vdiv :: "real list \<Rightarrow> real \<Rightarrow> real list" where
  "vdiv v s = map (\<lambda>j. v ! j / s) [0..<9]"

text \<open>\<open>vnl_matrix_fixed<T, 3, 3>(data_block)\<close>: nine values, row by row.\<close>

definition matrix_3x3 :: "real list \<Rightarrow> real list list" where
  "matrix_3x3 e = [[e ! 0, e ! 1, e ! 2], [e ! 3, e ! 4, e ! 5], [e ! 6, e ! 7, e ! 8]]"

text \<open>The body of the \<open>if\<close> in the loop of \<open>compute_e_matrices\<close>, for eigenvalue \<open>i\<close>.\<close>

definition e_matrix :: "backend \<Rightarrow> real list list \<Rightarrow> vnl_matrix \<Rightarrow> nat \<Rightarrow> vpgl_essential_matrix" where
  "e_matrix la basis action_matrix i =
     (let w_inv = 1 / Re (eig_V la action_matrix i 9);
          x = Re (eig_V la action_matrix i 6) * w_inv;
          y = Re (eig_V la action_matrix i 7) * w_inv;
          z = Re (eig_V la action_matrix i 8) * w_inv;
          linear_e = vadd (vadd (vadd (vscale x (basis ! 0)) (vscale y (basis ! 1)))
                                (vscale z (basis ! 2)))
                          (basis ! 3)
      in vpgl_essential_matrix (matrix_3x3 (vdiv linear_e (linear_e ! 8))))"

text \<open>
  \<open>compute_e_matrices\<close>: one pass over \<open>i = 0, ..., eigs.D.size() - 1\<close>, pushing onto
  \<open>ems\<close>.  \<open>None\<close> marks a read of \<open>basis[k]\<close>, \<open>k < 4\<close>, beyond the end of the vector.
\<close>

definition compute_e_matrices ::
  "backend \<Rightarrow> real \<Rightarrow> real list list \<Rightarrow> vnl_matrix \<Rightarrow> vpgl_essential_matrix list
     \<Rightarrow> vpgl_essential_matrix list option" where
  "compute_e_matrices la tol basis action_matrix ems =
     (if length basis < 4 then None
      else Some (foldl (\<lambda>acc i. if \<bar>Im (eig_D la action_matrix i)\<bar> \<le> tol
                                 then acc @ [e_matrix la basis action_matrix i] else acc)
                       ems [0..<eig_size action_matrix]))"

subsection \<open>The top-level operation\<close>

text \<open>Decimal output of a size, as \<open>operator<<\<close> prints it.\<close>

fun decimal :: "nat \<Rightarrow> string" where
  "decimal n =
     (if n < 10 then [''0123456789'' ! n]
      else decimal (n div 10) @ [''0123456789'' ! (n mod 10)])"

definition diagnostic :: "nat \<Rightarrow> nat \<Rightarrow> string" where
  "diagnostic r l =
     ''Wrong number of input points!'' @ [CHR 0x0A] @
     ''right_points has '' @ decimal r @ '' and left_points has '' @ decimal l @ [CHR 0x0A]"

text \<open>
  What a call of \<open>compute\<close> leaves behind: the value of the \<open>return\<close> statement that
  ended it (\<open>None\<close> when control reaches the closing brace of the function without
  one), the vector \<open>ems\<close> and the text written to \<open>vcl_cerr\<close>.  \<open>Undefined_Run\<close> is a
  run in which a stage had no defined result.
\<close>

datatype outcome =
  Finished (returned: "bool option") (ems_after: "vpgl_essential_matrix list") (cerr: string)
  | Undefined_Run

definition compute ::
  "backend \<Rightarrow> vpgl_em_compute_5_point \<Rightarrow> vgl_point_2d list \<Rightarrow> vgl_point_2d list
     \<Rightarrow> vpgl_essential_matrix list \<Rightarrow> outcome" where
  "compute la self right_points left_points ems =
     (if length right_points \<noteq> 5 \<or> length left_points \<noteq> 5
      then Finished (Some False) ems
             (if verbose self then diagnostic (length right_points) (length left_points)
              else [])
      else
        case compute_nullspace_basis la (tolerance self) right_points left_points [] of
          None \<Rightarrow> Undefined_Run
        | Some basis \<Rightarrow>
        (case compute_constraint_polynomials basis [] of
          None \<Rightarrow> Undefined_Run
        | Some constraints \<Rightarrow>
        (case compute_groebner_basis la constraints (new_matrix 10 10) of
          None \<Rightarrow> Undefined_Run
        | Some groebner_basis \<Rightarrow>
        (case compute_action_matrix groebner_basis (new_matrix 10 10) of
          None \<Rightarrow> Undefined_Run
        | Some action_matrix \<Rightarrow>
        (case compute_e_matrices la (tolerance self) basis action_matrix ems of
          None \<Rightarrow> Undefined_Run
        | Some ems' \<Rightarrow> Finished None ems' [])))))"

subsection \<open>Predicates used in the statements\<close>


subsection \<open>Concrete inputs\<close>

text \<open>
  A backend for closed instances of the statements: \<open>V\<close> is the identity matrix, the row
  reduction returns its argument, eigenvalues 0 and 1 are real and the others have
  imaginary part 1, and every component of eigenvector \<open>i\<close> is \<open>i + 1\<close>.
\<close>

definition sample_backend :: backend where
  "sample_backend =
     \<lparr>svd_V = (\<lambda>tol A j i. if j = i then 1 else 0),
      row_reduce = (\<lambda>A. A),
      eig_D = (\<lambda>M i. Complex (real i) (if i < 2 then 0 else 1)),
      eig_V = (\<lambda>M i j. Complex (real (i + 1)) 0)\<rparr>"

text \<open>
  Five points: \<open>(0,0), (1,0), (0,1), (1,1), (0.5,0.5)\<close>.
\<close>

definition known_points :: "vgl_point_2d list" where
  "known_points =
     [\<lparr>px = 0, py = 0\<rparr>, \<lparr>px = 1, py = 0\<rparr>, \<lparr>px = 0, py = 1\<rparr>, \<lparr>px = 1, py = 1\<rparr>,
      \<lparr>px = 1 / 2, py = 1 / 2\<rparr>]"

text \<open>
  The default constructor: \<open>verbose(false), tolerance(0.0001)\<close>.
\<close>

definition default_solver :: vpgl_em_compute_5_point where
  "default_solver = \<lparr>verbose = False, tolerance = 1 / 10000\<rparr>"

text \<open>
  Four points, one too few.
\<close>

definition four_points :: "vgl_point_2d list" where
  "four_points = [\<lparr>px = 0, py = 0\<rparr>, \<lparr>px = 1, py = 0\<rparr>, \<lparr>px = 0, py = 1\<rparr>, \<lparr>px = 1, py = 1\<rparr>]"

text \<open>
  An essential matrix that a caller may already hold in \<open>ems\<close>.
\<close>

definition identity_3x3 :: vpgl_essential_matrix where
  "identity_3x3 = vpgl_essential_matrix [[1, 0, 0], [0, 1, 0], [0, 0, 1]]"


subsection \<open>The constraint polynomials in the words of the specification\<close>

text \<open>
  Following the specification, not the code: with the entries of \<open>E\<close> laid out as
  \<open>[E0 E1 E2; E3 E4 E5; E6 E7 E8]\<close>,
  \<open>det = E4*(E0*E8 - E6*E2) + E5*(E1*E6 - E0*E7) + E3*(E2*E7 - E1*E8)\<close>.
\<close>

definition spec_det :: "vnl_real_npolynomial list \<Rightarrow> vnl_real_npolynomial" where
  "spec_det E =
     padd (padd (pmult (E ! 4) (psub (pmult (E ! 0) (E ! 8)) (pmult (E ! 6) (E ! 2))))
                (pmult (E ! 5) (psub (pmult (E ! 1) (E ! 6)) (pmult (E ! 0) (E ! 7)))))
          (pmult (E ! 3) (psub (pmult (E ! 2) (E ! 7)) (pmult (E ! 1) (E ! 8))))"

text \<open>Following the specification: \<open>S\<close> is the sum of the squares of the nine entries.\<close>

definition spec_S :: "vnl_real_npolynomial list \<Rightarrow> vnl_real_npolynomial" where
  "spec_S E = foldl (\<lambda>s k. padd s (pmult (E ! k) (E ! k))) [] [0..<9]"

text \<open>
  Following the specification: one of the three products of \<open>C i\<close>, for the row offset
  \<open>r\<close> (0, 3 or 6):
  \<open>E[(i mod 3) + r] * 2 * (E[r]*E[3(i mod 3)+0] + E[r+1]*E[3(i mod 3)+1] + E[r+2]*E[3(i mod 3)+2])\<close>.
\<close>

definition spec_term :: "vnl_real_npolynomial list \<Rightarrow> nat \<Rightarrow> nat \<Rightarrow> vnl_real_npolynomial" where
  "spec_term E r i =
     pmult (E ! (i mod 3 + r))
       (pscale (padd (padd (pmult (E ! r) (E ! (3 * (i mod 3) + 0)))
                           (pmult (E ! (r + 1)) (E ! (3 * (i mod 3) + 1))))
                     (pmult (E ! (r + 2)) (E ! (3 * (i mod 3) + 2)))) 2)"

text \<open>Following the specification: \<open>C i\<close> is the sum of the three products minus \<open>E[i] * S\<close>.\<close>

definition spec_C :: "vnl_real_npolynomial list \<Rightarrow> nat \<Rightarrow> vnl_real_npolynomial" where
  "spec_C E i =
     psub (padd (padd (spec_term E 0 i) (spec_term E 3 i)) (spec_term E 6 i))
          (pmult (E ! i) (spec_S E))"

text \<open>Following the specification: the ten constraints in the order \<open>[det, C 0, ..., C 8]\<close>.\<close>

definition spec_constraint_polynomials :: "real list list \<Rightarrow> vnl_real_npolynomial list" where
  "spec_constraint_polynomials basis =
     (let E = map (entry_polynomial basis) [0..<9] in spec_det E # map (spec_C E) [0..<9])"

subsection \<open>Values of the constraint polynomials\<close>

text \<open>
  The value at a point \<open>(x, y, z, w)\<close> of entry \<open>i\<close> of the parametric matrix,
  \<open>x * B0[i] + y * B1[i] + z * B2[i] + B3[i]\<close>, and, for values \<open>e 0, ..., e 8\<close> of
  the nine entries, the values of the determinant, of the sum of squares and of one of the
  three products with row offset \<open>r\<close> and loop index \<open>i\<close>.
\<close>

definition entry_value :: "real list list \<Rightarrow> real \<times> real \<times> real \<times> real \<Rightarrow> nat \<Rightarrow> real" where
  "entry_value basis v i =
     (case v of (x, y, z, w) \<Rightarrow>
        basis ! 0 ! i * x + basis ! 1 ! i * y + basis ! 2 ! i * z + basis ! 3 ! i)"

definition det_value :: "(nat \<Rightarrow> real) \<Rightarrow> real" where
  "det_value e =
     e 4 * (e 0 * e 8 - e 6 * e 2) + e 5 * (e 1 * e 6 - e 0 * e 7) + e 3 * (e 2 * e 7 - e 1 * e 8)"

definition squares_value :: "(nat \<Rightarrow> real) \<Rightarrow> real" where
  "squares_value e =
     e 0 * e 0 + e 1 * e 1 + e 2 * e 2 + e 3 * e 3 + e 4 * e 4 + e 5 * e 5 + e 6 * e 6
     + e 7 * e 7 + e 8 * e 8"

definition term_value :: "(nat \<Rightarrow> real) \<Rightarrow> nat \<Rightarrow> nat \<Rightarrow> real" where
  "term_value e r i =
     e (i mod 3 + r) *
       (2 * (e r * e (3 * (i mod 3) + 0) + e (r + 1) * e (3 * (i mod 3) + 1)
             + e (r + 2) * e (3 * (i mod 3) + 2)))"

subsection \<open>Row reduction in the words of the specification\<close>

text \<open>
  Modelled from the spec: \<open>vnl_rank_row_reduce\<close> belongs to the vnl library, which the
  solver only includes; the specification asks for the reduced row echelon form over the reals.  One step of
  Gauss-Jordan elimination: row \<open>p\<close> is swapped into position \<open>r\<close>, divided by its entry
  in column \<open>c\<close>, and column \<open>c\<close> is cleared in every other row.
\<close>

definition eliminate :: "vnl_matrix \<Rightarrow> nat \<Rightarrow> nat \<Rightarrow> nat \<Rightarrow> vnl_matrix" where
  "eliminate m r p c =
     (let m1 = m[r := m ! p, p := m ! r];
          pivot = m1 ! r ! c;
          pivot_row = map (\<lambda>v. v / pivot) (m1 ! r);
          clear = (\<lambda>row. map2 (\<lambda>a b. a - row ! c * b) row pivot_row)
      in map clear (take r m1) @ [pivot_row] @ map clear (drop (Suc r) m1))"

text \<open>
  Modelled from the spec: the columns are visited from left to right, \<open>n\<close> of them are
  left; the pivot of a column is its first nonzero entry at or below row \<open>r\<close>.
\<close>

fun rref_from :: "nat \<Rightarrow> nat \<Rightarrow> nat \<Rightarrow> vnl_matrix \<Rightarrow> vnl_matrix" where
  "rref_from 0 r c m = m"
| "rref_from (Suc n) r c m =
     (case find (\<lambda>i. m ! i ! c \<noteq> 0) [r..<length m] of
        None \<Rightarrow> rref_from n r (c + 1) m
      | Some p \<Rightarrow> rref_from n (r + 1) (c + 1) (eliminate m r p c))"

text \<open>Modelled from the spec: the reduced row echelon form of a matrix.\<close>

definition rref :: "vnl_matrix \<Rightarrow> vnl_matrix" where
  "rref m = rref_from (case m of [] \<Rightarrow> 0 | row # _ \<Rightarrow> length row) 0 0 m"

text \<open>Four basis vectors: the unit vectors 0, 1, 2 and 3 of dimension nine.\<close>

definition unit_basis :: "real list list" where
  "unit_basis =
     [[1, 0, 0, 0, 0, 0, 0, 0, 0], [0, 1, 0, 0, 0, 0, 0, 0, 0],
      [0, 0, 1, 0, 0, 0, 0, 0, 0], [0, 0, 0, 1, 0, 0, 0, 0, 0]]"

text \<open>
  Ten constraints, each a single term with coefficient 8: constraint \<open>i\<close> is 8 times the
  \<open>i\<close>-th monomial of degree three in the fixed ordering.
\<close>

definition single_term_constraints :: "vnl_real_npolynomial list" where
  "single_term_constraints =
     [[(8, (3, 0, 0, 0))], [(8, (2, 1, 0, 0))], [(8, (1, 2, 0, 0))], [(8, (0, 3, 0, 0))],
      [(8, (2, 0, 1, 0))], [(8, (1, 1, 1, 0))], [(8, (0, 2, 1, 0))], [(8, (1, 0, 2, 0))],
      [(8, (0, 1, 2, 0))], [(8, (0, 0, 3, 0))]]"

subsection \<open>The essential matrix of an eigenvector, in the words of the specification\<close>






section \<open>Properties\<close>

subsection \<open>Coefficient lookup and the coefficient matrix\<close>


lemma coeff_row_order: "coeff_row p = map (\<lambda>(a, b, c). get_coeff p a b c) monomial_order"
  by (simp add: coeff_row_def monomial_order_def)

lemma length_monomial_order: "length monomial_order = 20"
  by (simp add: monomial_order_def)

lemma coefficient_matrix_entry:
  assumes "i < 10" "k < 20"
  shows "coefficient_matrix cs ! i ! k =
         (case monomial_order ! k of (a, b, c) \<Rightarrow> get_coeff (cs ! i) a b c)"
proof -
  have "coefficient_matrix cs ! i = coeff_row (cs ! i)"
    using assms(1) by (simp add: coefficient_matrix_def del: upt.simps)
  then show ?thesis
    using assms(2) by (simp add: coeff_row_order length_monomial_order)
qed




subsection \<open>The stages have defined results\<close>

lemma foldl_push_if:
  "foldl (\<lambda>acc i. if P i then acc @ [f i] else acc) ems ixs = ems @ map f (filter P ixs)"
  by (induction ixs arbitrary: ems) auto

lemma foldl_push_length:
  "length (foldl (\<lambda>cs i. cs @ [f i]) cs0 ixs) = length cs0 + length ixs"
  by (induction ixs arbitrary: cs0) auto

lemma foldl_update_length:
  "length (foldl (\<lambda>cs i. cs[i := f cs i]) cs0 ixs) = length cs0"
  by (induction ixs arbitrary: cs0) auto

lemma compute_nullspace_basis_five:
  "length rp = 5 \<Longrightarrow> length lp = 5 \<Longrightarrow>
   \<exists>b. compute_nullspace_basis la tol rp lp [] = Some b \<and> length b = 4"
  by (simp add: compute_nullspace_basis_def Let_def del: upt.simps)

lemma compute_constraint_polynomials_length:
  "4 \<le> length basis \<Longrightarrow>
   \<exists>cs. compute_constraint_polynomials basis cs0 = Some cs \<and> length cs = length cs0 + 10"
  unfolding compute_constraint_polynomials_def Let_def
  by (simp add: foldl_push_length foldl_update_length del: foldl.simps upt.simps)

lemma has_dims_new_matrix: "has_dims r c (new_matrix r c)"
  by (simp add: has_dims_def new_matrix_def list_all_iff)

lemma compute_groebner_basis_unreduced:
  "compute_groebner_basis la cs gb =
     (if has_dims 10 10 gb \<and> 10 \<le> length cs
      then Some (map (\<lambda>i. map (\<lambda>j. coefficient_matrix cs ! i ! (j + 10)) [0..<10]) [0..<10])
      else None)"
  by (simp add: compute_groebner_basis_def Let_def del: upt.simps)

lemma compute_groebner_basis_dims:
  "10 \<le> length cs \<Longrightarrow>
   \<exists>G. compute_groebner_basis la cs (new_matrix 10 10) = Some G \<and> has_dims 10 10 G"
  by (simp add: compute_groebner_basis_unreduced has_dims_new_matrix del: upt.simps)
     (simp add: has_dims_def list_all_iff del: upt.simps)

lemma compute_action_matrix_length:
  "has_dims 10 10 G \<Longrightarrow>
   \<exists>am. compute_action_matrix G (new_matrix 10 10) = Some am \<and> length am = 10"
  by (simp add: compute_action_matrix_def has_dims_new_matrix Let_def put_def)
     (simp add: new_matrix_def)

lemma compute_e_matrices_filter:
  "4 \<le> length basis \<Longrightarrow>
   compute_e_matrices la tol basis am ems =
     Some (ems @ map (e_matrix la basis am)
                  (filter (\<lambda>i. \<bar>Im (eig_D la am i)\<bar> \<le> tol) [0..<eig_size am]))"
  by (simp add: compute_e_matrices_def foldl_push_if del: upt.simps)

lemma compute_valid_input:
  assumes "length rp = 5" "length lp = 5"
  shows "\<exists>new. length new \<le> 10 \<and> compute la self rp lp ems = Finished None (ems @ new) []"
proof -
  obtain b where b: "compute_nullspace_basis la (tolerance self) rp lp [] = Some b" "length b = 4"
    using compute_nullspace_basis_five [OF assms] by blast
  obtain cs where cs: "compute_constraint_polynomials b [] = Some cs" "length cs = 10"
    using compute_constraint_polynomials_length [of b "[]"] b(2) by auto
  obtain G where G: "compute_groebner_basis la cs (new_matrix 10 10) = Some G" "has_dims 10 10 G"
    using compute_groebner_basis_dims [of cs la] cs(2) by auto
  obtain am where am: "compute_action_matrix G (new_matrix 10 10) = Some am" "length am = 10"
    using compute_action_matrix_length [OF G(2)] by blast
  let ?new = "map (e_matrix la b am)
                (filter (\<lambda>i. \<bar>Im (eig_D la am i)\<bar> \<le> tolerance self) [0..<eig_size am])"
  have e: "compute_e_matrices la (tolerance self) b am ems = Some (ems @ ?new)"
    using compute_e_matrices_filter [of b] b(2) by simp
  have "length ?new \<le> length [0..<eig_size am]"
    unfolding length_map by (rule length_filter_le)
  then have len: "length ?new \<le> 10" by (simp add: eig_size_def am(2))
  have "compute la self rp lp ems = Finished None (ems @ ?new) []"
    using assms b(1) cs(1) G(1) am(1) e by (simp add: compute_def)
  with len show ?thesis by blast
qed

lemma compute_invalid_input:
  assumes "length rp \<noteq> 5 \<or> length lp \<noteq> 5"
  shows "compute la self rp lp ems =
         Finished (Some False) ems (if verbose self then diagnostic (length rp) (length lp) else [])"
  using assms by (auto simp add: compute_def)

lemma diagnostic_not_empty: "diagnostic r l \<noteq> []"
  by (simp add: diagnostic_def)

subsection \<open>The input-size guard\<close>

text \<open>
  Claim C3, as amended.  When either list does not have exactly five elements, \<open>compute\<close>
  returns \<open>false\<close>, the run is defined (no crash), the vector \<open>ems\<close> is left exactly as
  the caller supplied it (nothing is appended, so it is empty when it was empty on entry), and
  the diagnostic naming the two actual sizes is written if and only if \<open>verbose\<close> is set.
\<close>

theorem invalid_input_leaves_ems:
  assumes "length right_points \<noteq> 5 \<or> length left_points \<noteq> 5"
  shows "compute la self right_points left_points ems =
           Finished (Some False) ems
             (if verbose self
              then ''Wrong number of input points!'' @ [CHR 0x0A] @
                   ''right_points has '' @ decimal (length right_points) @
                   '' and left_points has '' @ decimal (length left_points) @ [CHR 0x0A]
              else [])
         \<and> (cerr (compute la self right_points left_points ems) \<noteq> [] \<longleftrightarrow> verbose self)"
  using assms by (auto simp add: compute_def diagnostic_def)

lemma length_four_points: "length four_points = 4"
  by (simp add: four_points_def)

lemma decimal_4: "decimal 4 = ''4''"
  by simp

theorem invalid_input_leaves_ems_witness:
  "length four_points \<noteq> 5 \<and>
   compute sample_backend \<lparr>verbose = True, tolerance = 1 / 10000\<rparr> four_points four_points [] =
     Finished (Some False) []
       (''Wrong number of input points!'' @ [CHR 0x0A] @
        ''right_points has 4 and left_points has 4'' @ [CHR 0x0A])"
proof -
  have h: "length four_points \<noteq> 5 \<or> length four_points \<noteq> 5"
    by (simp add: length_four_points)
  from invalid_input_leaves_ems
    [OF h, of sample_backend "\<lparr>verbose = True, tolerance = 1 / 10000\<rparr>" "[]"]
  show ?thesis
    by (simp add: length_four_points decimal_4 del: decimal.simps)
qed

text \<open>
  Claim C3 as stated fails: with four points on each side and a vector \<open>ems\<close> that holds
  one matrix on entry, the output list is not empty after the call.
\<close>

theorem invalid_input_output_not_empty:
  "length four_points \<noteq> 5 \<and>
   ems_after (compute sample_backend default_solver four_points four_points [identity_3x3]) \<noteq> []"
  by (simp add: compute_def length_four_points)

subsection \<open>The pipeline on five point pairs\<close>

text \<open>
  Claim C4, what the code does.  With exactly five points on each side the five stages run to
  the end and every stage has a defined result, but control then reaches the closing brace of
  \<open>compute\<close> without a \<open>return\<close> statement: no value is returned, in particular not
  \<open>true\<close>.
\<close>

theorem valid_input_no_return_value:
  assumes "length right_points = 5" "length left_points = 5"
  shows "\<exists>ems'. compute la self right_points left_points ems = Finished None ems' []"
  using compute_valid_input [OF assms] by blast

lemma length_known_points: "length known_points = 5"
  by (simp add: known_points_def)

theorem valid_input_no_return_value_witness:
  "length known_points = 5 \<and>
   returned (compute sample_backend default_solver known_points known_points []) = None \<and>
   returned (compute sample_backend default_solver known_points known_points []) \<noteq> Some True"
proof -
  obtain ems' where
    "compute sample_backend default_solver known_points known_points [] = Finished None ems' []"
    using valid_input_no_return_value [OF length_known_points length_known_points] by blast
  then show ?thesis by (simp add: length_known_points)
qed

text \<open>
  Claim C7.  For exactly five points on each side, one call of \<open>compute\<close> appends between
  0 and 10 essential matrices to \<open>ems\<close>.
\<close>

theorem at_most_ten_matrices:
  assumes "length right_points = 5" "length left_points = 5"
  shows "\<exists>r new err. compute la self right_points left_points ems = Finished r (ems @ new) err
                      \<and> length new \<le> 10"
  using compute_valid_input [OF assms] by blast

theorem at_most_ten_matrices_witness:
  "length known_points = 5 \<and>
   length (ems_after (compute sample_backend default_solver known_points known_points [])) \<le> 10"
proof -
  obtain r new err where
    "compute sample_backend default_solver known_points known_points [] = Finished r ([] @ new) err"
    "length new \<le> 10"
    using at_most_ten_matrices [OF length_known_points length_known_points] by blast
  then show ?thesis by (simp add: length_known_points)
qed

text \<open>
  Claim C10.  For every input and every initial content of \<open>ems\<close>, the elements that
  \<open>ems\<close> held before the call are unchanged and at their positions after it; whatever the
  call produces comes after them.
\<close>

theorem compute_only_appends:
  "\<exists>r new err. compute la self right_points left_points ems = Finished r (ems @ new) err"
proof (cases "length right_points = 5 \<and> length left_points = 5")
  case True
  then show ?thesis using compute_valid_input [of right_points left_points] by blast
next
  case False
  then have "length right_points \<noteq> 5 \<or> length left_points \<noteq> 5" by blast
  from compute_invalid_input [OF this] show ?thesis by simp
qed

theorem compute_only_appends_witness:
  "take 1 (ems_after (compute sample_backend default_solver known_points known_points [identity_3x3]))
     = [identity_3x3] \<and>
   ems_after (compute sample_backend default_solver four_points four_points [identity_3x3])
     = [identity_3x3]"
proof -
  obtain r new err where
    "compute sample_backend default_solver known_points known_points [identity_3x3]
       = Finished r ([identity_3x3] @ new) err"
    using compute_only_appends by blast
  moreover have "ems_after (compute sample_backend default_solver four_points four_points [identity_3x3])
     = [identity_3x3]"
    by (simp add: compute_def length_four_points)
  ultimately show ?thesis by simp
qed

subsection \<open>Stage 1\<close>

text \<open>
  Claim C5.  For five point pairs, \<open>compute_nullspace_basis\<close> builds the 5 by 9 matrix
  \<open>A\<close> whose row \<open>i\<close> is \<open>[xr*xl, yr*xl, xl, xr*yl, yr*yl, yl, xr, yr, 1]\<close> and pushes
  exactly four 9-vectors \<open>B 0, ..., B 3\<close> with \<open>B k ! j = V(j, 5 + k)\<close>, where \<open>V\<close> is
  the matrix of right singular vectors of \<open>A\<close>: the columns are chosen by index.
\<close>

theorem nullspace_basis_is_columns_5_to_8:
  assumes "length right_points = 5" "length left_points = 5"
  shows "let A = map (\<lambda>i. [px (right_points ! i) * px (left_points ! i),
                              py (right_points ! i) * px (left_points ! i),
                              px (left_points ! i),
                              px (right_points ! i) * py (left_points ! i),
                              py (right_points ! i) * py (left_points ! i),
                              py (left_points ! i),
                              px (right_points ! i),
                              py (right_points ! i),
                              1]) [0..<5];
             B = (\<lambda>k. map (\<lambda>j. svd_V la tol A j (5 + k)) [0..<9])
         in compute_nullspace_basis la tol right_points left_points basis
              = Some (basis @ [B 0, B 1, B 2, B 3])
            \<and> (\<forall>k<4. length (B k) = 9 \<and> (\<forall>j<9. B k ! j = svd_V la tol A j (5 + k)))"
proof -
  have A: "epipolar_matrix right_points left_points =
           map (\<lambda>i. [px (right_points ! i) * px (left_points ! i),
                              py (right_points ! i) * px (left_points ! i),
                              px (left_points ! i),
                              px (right_points ! i) * py (left_points ! i),
                              py (right_points ! i) * py (left_points ! i),
                              py (left_points ! i),
                              px (right_points ! i),
                              py (right_points ! i),
                              1]) [0..<5]"
    by (simp add: epipolar_matrix_def epipolar_row_def del: upt.simps)
  have cols: "[5..<9] = [5, 6, 7, 8::nat]"
    by (simp add: upt_rec)
  have "compute_nullspace_basis la tol right_points left_points basis =
        Some (basis @ map (\<lambda>i. map (\<lambda>j. svd_V la tol (epipolar_matrix right_points left_points) j i) [0..<9]) [5, 6, 7, 8])"
    using assms unfolding compute_nullspace_basis_def Let_def cols by simp
  then show ?thesis
    unfolding A Let_def by (simp del: upt.simps)
qed

theorem nullspace_basis_is_columns_5_to_8_witness:
  "length known_points = 5 \<and>
   compute_nullspace_basis sample_backend (1 / 10000) known_points known_points [] =
     Some [[0, 0, 0, 0, 0, 1, 0, 0, 0], [0, 0, 0, 0, 0, 0, 1, 0, 0],
           [0, 0, 0, 0, 0, 0, 0, 1, 0], [0, 0, 0, 0, 0, 0, 0, 0, 1]]"
proof -
  note T = nullspace_basis_is_columns_5_to_8
    [OF length_known_points length_known_points, of sample_backend "1 / 10000" "[]"]
  have "compute_nullspace_basis sample_backend (1 / 10000) known_points known_points [] =
     Some [[0, 0, 0, 0, 0, 1, 0, 0, 0], [0, 0, 0, 0, 0, 0, 1, 0, 0],
           [0, 0, 0, 0, 0, 0, 0, 1, 0], [0, 0, 0, 0, 0, 0, 0, 0, 1]]"
    using T unfolding Let_def by (simp add: sample_backend_def upt_rec)
  then show ?thesis by (simp add: length_known_points)
qed

subsection \<open>Stage 5\<close>











subsection \<open>Stage 2: what the three loops emit\<close>

lemma peval_Nil: "peval [] v = 0"
  by (simp add: peval_def)

lemma peval_Cons: "peval (t # ts) v = fst t * mono_eval (snd t) v + peval ts v"
  by (simp add: peval_def)

lemma peval_append: "peval (p @ q) v = peval p v + peval q v"
  by (simp add: peval_def)

lemma peval_add_term: "peval (add_term t us) v = fst t * mono_eval (snd t) v + peval us v"
  by (induction us) (auto simp: peval_Cons peval_Nil algebra_simps)

lemma peval_foldl_add_term:
  "peval (foldl (\<lambda>acc t. add_term t acc) acc ts) v = peval acc v + peval ts v"
  by (induction ts arbitrary: acc) (auto simp: peval_add_term peval_Cons peval_Nil)

lemma peval_filter_nonzero: "peval (filter (\<lambda>t. fst t \<noteq> 0) ts) v = peval ts v"
  by (induction ts) (auto simp: peval_Cons peval_Nil)

lemma peval_simplify: "peval (simplify ts) v = peval ts v"
  by (simp add: simplify_def peval_filter_nonzero peval_foldl_add_term peval_Nil)

lemma peval_padd: "peval (padd p q) v = peval p v + peval q v"
  by (simp add: padd_def peval_simplify peval_append)

lemma peval_negate: "peval (map (\<lambda>t. (- fst t, snd t)) q) v = - peval q v"
  by (induction q) (auto simp: peval_Cons peval_Nil)

lemma peval_psub: "peval (psub p q) v = peval p v - peval q v"
  by (simp add: psub_def peval_simplify peval_append peval_negate)

lemma peval_pscale: "peval (pscale p k) v = peval p v * k"
  unfolding pscale_def by (induction p) (auto simp: peval_Cons peval_Nil algebra_simps)

lemma mono_eval_mult: "mono_eval (mono_mult m n) v = mono_eval m v * mono_eval n v"
  by (cases m; cases n; cases v) (simp add: power_add)

lemma peval_term_times:
  "peval (map (\<lambda>u. (fst t * fst u, mono_mult (snd t) (snd u))) q) v
     = fst t * mono_eval (snd t) v * peval q v"
  by (induction q) (auto simp: peval_Cons peval_Nil mono_eval_mult algebra_simps)

lemma peval_products:
  "peval (concat (map (\<lambda>t. map (\<lambda>u. (fst t * fst u, mono_mult (snd t) (snd u))) q) p)) v
     = peval p v * peval q v"
  by (induction p) (auto simp: peval_Cons peval_Nil peval_append peval_term_times algebra_simps)

lemma peval_pmult: "peval (pmult p q) v = peval p v * peval q v"
  by (simp add: pmult_def peval_simplify peval_products)

lemma peval_entry_polynomial:
  "peval (entry_polynomial basis i) v = entry_value basis v i"
  by (cases v) (simp add: entry_polynomial_def pset_def exps_def peval_def entry_value_def)

lemma foldl_push_map: "foldl (\<lambda>cs i. cs @ [f i]) cs0 ixs = cs0 @ map f ixs"
  by (induction ixs arbitrary: cs0) auto

lemma foldl_update_prefix:
  "n \<le> length cs0 \<Longrightarrow>
   foldl (\<lambda>cs i. cs[i := g i (cs ! i)]) cs0 [0..<n] =
     map (\<lambda>k. if k < n then g k (cs0 ! k) else cs0 ! k) [0..<length cs0]"
proof (induction n)
  case 0
  show ?case by (simp add: map_nth)
next
  case (Suc n)
  then have IH: "foldl (\<lambda>cs i. cs[i := g i (cs ! i)]) cs0 [0..<n] =
     map (\<lambda>k. if k < n then g k (cs0 ! k) else cs0 ! k) [0..<length cs0]"
    and n: "n < length cs0" by simp_all
  show ?case
    unfolding upt_Suc_append [OF le0] foldl_append IH
    using n by (auto intro!: nth_equalityI simp: nth_list_update less_Suc_eq)
qed

lemma peval_sum_of_squares:
  "peval (foldl (\<lambda>s i. padd s (pmult (E ! i) (E ! i))) s0 ixs) v
     = peval s0 v + sum_list (map (\<lambda>i. peval (E ! i) v * peval (E ! i) v) ixs)"
  by (induction ixs arbitrary: s0) (auto simp: peval_padd peval_pmult)

lemma peval_bracket:
  "peval (bracket E r i) v =
     2 * (peval (E ! r) v * peval (E ! (3 * (i mod 3) + 0)) v
          + peval (E ! (r + 1)) v * peval (E ! (3 * (i mod 3) + 1)) v
          + peval (E ! (r + 2)) v * peval (E ! (3 * (i mod 3) + 2)) v)"
  by (simp add: bracket_def peval_padd peval_pscale peval_pmult)

text \<open>
  Claim C1, what the code does.  Ten polynomials are emitted, but the second and the third
  loop update \<open>constraints[i]\<close> for \<open>i = 0, ..., 8\<close> while the nine singular-value
  constraints sit at positions \<open>1, ..., 9\<close>.  For every basis and at every point: the
  first polynomial is the determinant plus the second and third product of \<open>C 0\<close>;
  polynomial \<open>k\<close>, \<open>1 \<le> k \<le> 8\<close>, is the first product of \<open>C (k-1)\<close> minus
  \<open>E[k-1] * S\<close> plus the second and third product of \<open>C k\<close>; the last polynomial is
  the first product of \<open>C 8\<close> minus \<open>E[8] * S\<close> only.
\<close>

theorem constraint_polynomials_values:
  assumes "4 \<le> length basis"
  shows "\<exists>cs. compute_constraint_polynomials basis [] = Some cs \<and> length cs = 10 \<and>
     (let e = entry_value basis v in
        peval (cs ! 0) v = det_value e + term_value e 3 0 + term_value e 6 0 \<and>
        (\<forall>k. 1 \<le> k \<and> k \<le> 8 \<longrightarrow>
           peval (cs ! k) v =
             term_value e 0 (k - 1) - e (k - 1) * squares_value e
             + term_value e 3 k + term_value e 6 k) \<and>
        peval (cs ! 9) v = term_value e 0 8 - e 8 * squares_value e)"
proof -
  define E where "E = map (entry_polynomial basis) [0..<9]"
  define e where "e = entry_value basis v"
  define D where "D =
    padd (padd (pmult (E ! 4) (psub (pmult (E ! 0) (E ! 8)) (pmult (E ! 6) (E ! 2))))
               (pmult (E ! 5) (psub (pmult (E ! 1) (E ! 6)) (pmult (E ! 0) (E ! 7)))))
         (pmult (E ! 3) (psub (pmult (E ! 2) (E ! 7)) (pmult (E ! 1) (E ! 8))))"
  define S where
    "S = foldl (\<lambda>s i. padd s (pmult (E ! i) (E ! i))) (pmult (E ! 0) (E ! 0)) [1..<9]"
  define f1 where
    "f1 = (\<lambda>i. psub (pmult (E ! (i mod 3)) (bracket E 0 i)) (pmult (E ! i) S))"
  define g3 where
    "g3 = (\<lambda>i p. padd p (pmult (E ! (i mod 3 + 3)) (bracket E 3 i)))"
  define g6 where
    "g6 = (\<lambda>i p. padd p (pmult (E ! (i mod 3 + 6)) (bracket E 6 i)))"
  define cs2 where "cs2 = D # map f1 [0..<9]"
  define cs3 where "cs3 = map (\<lambda>k. if k < 9 then g3 k (cs2 ! k) else cs2 ! k) [0..<10]"
  define cs4 where "cs4 = map (\<lambda>k. if k < 9 then g6 k (cs3 ! k) else cs3 ! k) [0..<10]"
  have len2: "length cs2 = 10" by (simp add: cs2_def)
  have len3: "length cs3 = 10" by (simp add: cs3_def)
  have "compute_constraint_polynomials basis [] =
        Some (foldl (\<lambda>cs i. cs[i := g6 i (cs ! i)])
               (foldl (\<lambda>cs i. cs[i := g3 i (cs ! i)])
                  (foldl (\<lambda>cs i. cs @ [f1 i]) [D] [0..<9]) [0..<9]) [0..<9])"
    using assms
    unfolding compute_constraint_polynomials_def Let_def E_def D_def S_def f1_def g3_def g6_def
    by (simp del: upt.simps foldl.simps upt_rec_numeral)
  also have "foldl (\<lambda>cs i. cs @ [f1 i]) [D] [0..<9] = cs2"
    by (simp add: foldl_push_map cs2_def del: upt.simps upt_rec_numeral)
  also have "foldl (\<lambda>cs i. cs[i := g3 i (cs ! i)]) cs2 [0..<9] = cs3"
    using foldl_update_prefix [of 9 cs2 g3] by (simp add: len2 cs3_def del: upt.simps upt_rec_numeral)
  also have "foldl (\<lambda>cs i. cs[i := g6 i (cs ! i)]) cs3 [0..<9] = cs4"
    using foldl_update_prefix [of 9 cs3 g6] by (simp add: len3 cs4_def del: upt.simps upt_rec_numeral)
  finally have run: "compute_constraint_polynomials basis [] = Some cs4" .
  have Ev: "peval (E ! i) v = e i" if "i < 9" for i
    using that by (simp add: E_def e_def peval_entry_polynomial del: upt.simps upt_rec_numeral)
  have ixs: "[1..<9] = [1, 2, 3, 4, 5, 6, 7, 8::nat]"
    by (simp add: upt_rec)
  have Sv: "peval S v = squares_value e"
    unfolding S_def peval_sum_of_squares ixs
    by (simp add: peval_pmult Ev squares_value_def)
  have Dv: "peval D v = det_value e"
    by (simp add: D_def peval_padd peval_psub peval_pmult Ev det_value_def)
  have m3: "i mod 3 < 3" for i :: nat by simp
  have f1v: "peval (f1 i) v = term_value e 0 i - e i * squares_value e" if "i < 9" for i
    using that m3 [of i]
    by (simp add: f1_def peval_psub peval_pmult peval_bracket Ev Sv term_value_def)
  have g3v: "peval (g3 i p) v = peval p v + term_value e 3 i" for i p
    using m3 [of i]
    by (simp add: g3_def peval_padd peval_pmult peval_bracket Ev term_value_def)
  have g6v: "peval (g6 i p) v = peval p v + term_value e 6 i" for i p
    using m3 [of i]
    by (simp add: g6_def peval_padd peval_pmult peval_bracket Ev term_value_def)
  have c4: "cs4 ! k = (if k < 9 then g6 k (g3 k (cs2 ! k)) else cs2 ! k)" if "k < 10" for k
    using that by (simp add: cs4_def cs3_def del: upt.simps upt_rec_numeral)
  have c2: "cs2 ! k = (if k = 0 then D else f1 (k - 1))" if "k < 10" for k
    using that by (simp add: cs2_def nth_Cons' del: upt.simps upt_rec_numeral)
  have v0: "peval (cs4 ! 0) v = det_value e + term_value e 3 0 + term_value e 6 0"
    by (simp add: c4 c2 g3v g6v Dv)
  have vk: "peval (cs4 ! k) v =
             term_value e 0 (k - 1) - e (k - 1) * squares_value e
             + term_value e 3 k + term_value e 6 k" if "1 \<le> k" "k \<le> 8" for k
    using that by (simp add: c4 c2 g3v g6v f1v)
  have v9: "peval (cs4 ! 9) v = term_value e 0 8 - e 8 * squares_value e"
    by (simp add: c4 c2 f1v)
  have "length cs4 = 10" by (simp add: cs4_def)
  with run v0 vk v9 show ?thesis
    unfolding Let_def e_def [symmetric] by blast
qed

text \<open>The values of the ten polynomials that the specification describes.\<close>

lemma spec_constraint_polynomials_values:
  "length (spec_constraint_polynomials basis) = 10 \<and>
   (let e = entry_value basis v in
      peval (spec_constraint_polynomials basis ! 0) v = det_value e \<and>
      (\<forall>i<9. peval (spec_constraint_polynomials basis ! Suc i) v =
                term_value e 0 i + term_value e 3 i + term_value e 6 i
                - e i * squares_value e))"
proof -
  define E where "E = map (entry_polynomial basis) [0..<9]"
  define e where "e = entry_value basis v"
  have Ev: "peval (E ! i) v = e i" if "i < 9" for i
    using that by (simp add: E_def e_def peval_entry_polynomial del: upt.simps upt_rec_numeral)
  have ixs: "[0..<9] = [0, 1, 2, 3, 4, 5, 6, 7, 8::nat]"
    by (simp add: upt_rec)
  have Sv: "peval (spec_S E) v = squares_value e"
    unfolding spec_S_def peval_sum_of_squares ixs
    by (simp add: Ev squares_value_def peval_Nil)
  have Dv: "peval (spec_det E) v = det_value e"
    by (simp add: spec_det_def peval_padd peval_psub peval_pmult Ev det_value_def)
  have m3: "i mod 3 < 3" for i :: nat by simp
  have Tv: "peval (spec_term E r i) v = term_value e r i" if "r = 0 \<or> r = 3 \<or> r = 6" for r i
    using that m3 [of i]
    by (auto simp add: spec_term_def peval_padd peval_pscale peval_pmult Ev term_value_def)
  have Cv: "peval (spec_C E i) v =
            term_value e 0 i + term_value e 3 i + term_value e 6 i - e i * squares_value e"
    if "i < 9" for i
    using that by (simp add: spec_C_def peval_psub peval_padd peval_pmult Tv Sv Ev)
  have eq: "spec_constraint_polynomials basis = spec_det E # map (spec_C E) [0..<9]"
    by (simp add: spec_constraint_polynomials_def E_def Let_def del: upt.simps upt_rec_numeral)
  show ?thesis
    unfolding eq Let_def e_def [symmetric]
    by (simp add: Dv Cv del: upt.simps upt_rec_numeral)
qed

text \<open>The stored terms of both lists for the basis of unit vectors 0, 1, 2, 3.\<close>

lemma constraint_polynomials_at_unit_basis:
  "compute_constraint_polynomials unit_basis [] =
     Some [[(2, 1, 0, 0, 0)],
           [(1, 3, 0, 0, 0), (1, 1, 2, 0, 0), (1, 1, 0, 2, 0), (- 1, 1, 0, 0, 0)],
           [(2, 1, 1, 0, 0), (- 1, 2, 1, 0, 0), (- 1, 0, 3, 0, 0), (- 1, 0, 1, 2, 0),
            (- 1, 0, 1, 0, 0)],
           [(- 1, 2, 0, 1, 0), (- 1, 0, 2, 1, 0), (- 1, 0, 0, 3, 0), (- 1, 0, 0, 1, 0),
            (2, 1, 0, 0, 0)],
           [(2, 3, 0, 0, 0), (2, 1, 2, 0, 0), (2, 1, 0, 2, 0), (- 1, 2, 0, 0, 0),
            (- 1, 0, 2, 0, 0), (- 1, 0, 0, 2, 0), (- 1, 0, 0, 0, 0)],
           [(2, 1, 1, 0, 0)],
           [(2, 1, 0, 0, 0)],
           [(2, 3, 0, 0, 0), (2, 1, 2, 0, 0), (2, 1, 0, 2, 0)],
           [(2, 1, 1, 0, 0)],
           []]"
  by code_simp

lemma spec_constraint_polynomials_at_unit_basis:
  "spec_constraint_polynomials unit_basis =
     [[],
      [(1, 3, 0, 0, 0), (1, 1, 2, 0, 0), (1, 1, 0, 2, 0), (1, 1, 0, 0, 0)],
      [(2, 1, 1, 0, 0), (- 1, 2, 1, 0, 0), (- 1, 0, 3, 0, 0), (- 1, 0, 1, 2, 0),
       (- 1, 0, 1, 0, 0)],
      [(- 1, 2, 0, 1, 0), (- 1, 0, 2, 1, 0), (- 1, 0, 0, 3, 0), (- 1, 0, 0, 1, 0)],
      [(2, 3, 0, 0, 0), (2, 1, 2, 0, 0), (2, 1, 0, 2, 0), (2, 1, 0, 0, 0),
       (- 1, 2, 0, 0, 0), (- 1, 0, 2, 0, 0), (- 1, 0, 0, 2, 0), (- 1, 0, 0, 0, 0)],
      [(2, 1, 1, 0, 0)],
      [],
      [(2, 3, 0, 0, 0), (2, 1, 2, 0, 0), (2, 1, 0, 2, 0), (2, 1, 0, 0, 0)],
      [(2, 1, 1, 0, 0)],
      []]"
  by code_simp

theorem constraint_polynomials_values_witness:
  "4 \<le> length unit_basis \<and>
   (\<exists>cs. compute_constraint_polynomials unit_basis [] = Some cs \<and> length cs = 10 \<and>
         peval (cs ! 0) (1, 0, 0, 1) = 2 \<and> peval (cs ! 1) (1, 0, 0, 1) = 0) \<and>
   peval (spec_constraint_polynomials unit_basis ! 0) (1, 0, 0, 1) = 0 \<and>
   peval (spec_constraint_polynomials unit_basis ! 1) (1, 0, 0, 1) = 2"
proof -
  have h: "4 \<le> length unit_basis"
    by (simp add: unit_basis_def)
  obtain cs where cs: "compute_constraint_polynomials unit_basis [] = Some cs" "length cs = 10"
    and v0: "peval (cs ! 0) (1, 0, 0, 1) =
             det_value (entry_value unit_basis (1, 0, 0, 1))
             + term_value (entry_value unit_basis (1, 0, 0, 1)) 3 0
             + term_value (entry_value unit_basis (1, 0, 0, 1)) 6 0"
    and v1: "peval (cs ! 1) (1, 0, 0, 1) =
             term_value (entry_value unit_basis (1, 0, 0, 1)) 0 (1 - 1)
             - entry_value unit_basis (1, 0, 0, 1) (1 - 1)
               * squares_value (entry_value unit_basis (1, 0, 0, 1))
             + term_value (entry_value unit_basis (1, 0, 0, 1)) 3 1
             + term_value (entry_value unit_basis (1, 0, 0, 1)) 6 1"
    using constraint_polynomials_values [OF h, of "(1, 0, 0, 1)"] unfolding Let_def
    by force
  have c0: "peval (cs ! 0) (1, 0, 0, 1) = 2"
    unfolding v0 by (simp add: det_value_def term_value_def entry_value_def unit_basis_def)
  have c1: "peval (cs ! 1) (1, 0, 0, 1) = 0"
    unfolding v1 by (simp add: squares_value_def term_value_def entry_value_def unit_basis_def)
  have s0: "peval (spec_constraint_polynomials unit_basis ! 0) (1, 0, 0, 1) = 0"
    unfolding spec_constraint_polynomials_at_unit_basis by (simp add: peval_def)
  have s1: "peval (spec_constraint_polynomials unit_basis ! 1) (1, 0, 0, 1) = 2"
    unfolding spec_constraint_polynomials_at_unit_basis by (simp add: peval_def)
  from h cs c0 c1 s0 s1 show ?thesis by blast
qed

subsection \<open>Stage 3: the matrix that is copied out\<close>

lemma coefficient_matrix_single_term: "coefficient_matrix single_term_constraints =
   [[8, -1, -1, -1, -1, -1, -1, -1, -1, -1, -1, -1, -1, -1, -1, -1, -1, -1, -1, -1],
    [-1, 8, -1, -1, -1, -1, -1, -1, -1, -1, -1, -1, -1, -1, -1, -1, -1, -1, -1, -1],
    [-1, -1, 8, -1, -1, -1, -1, -1, -1, -1, -1, -1, -1, -1, -1, -1, -1, -1, -1, -1],
    [-1, -1, -1, 8, -1, -1, -1, -1, -1, -1, -1, -1, -1, -1, -1, -1, -1, -1, -1, -1],
    [-1, -1, -1, -1, 8, -1, -1, -1, -1, -1, -1, -1, -1, -1, -1, -1, -1, -1, -1, -1],
    [-1, -1, -1, -1, -1, 8, -1, -1, -1, -1, -1, -1, -1, -1, -1, -1, -1, -1, -1, -1],
    [-1, -1, -1, -1, -1, -1, 8, -1, -1, -1, -1, -1, -1, -1, -1, -1, -1, -1, -1, -1],
    [-1, -1, -1, -1, -1, -1, -1, 8, -1, -1, -1, -1, -1, -1, -1, -1, -1, -1, -1, -1],
    [-1, -1, -1, -1, -1, -1, -1, -1, 8, -1, -1, -1, -1, -1, -1, -1, -1, -1, -1, -1],
    [-1, -1, -1, -1, -1, -1, -1, -1, -1, 8, -1, -1, -1, -1, -1, -1, -1, -1, -1, -1]]"
  by (simp add: coefficient_matrix_def single_term_constraints_def coeff_row_def to_unsigned_def upt_rec)

text \<open>
  Claim C2, what the code does.  The 10 by 20 matrix \<open>A\<close> of coefficients is built and handed
  to the row reduction, whose result is bound to \<open>rrefed\<close>; the copy loop reads \<open>A\<close>.
  For ten constraints and a 10 by 10 \<open>groebner_basis\<close> the output \<open>G\<close> is the same whatever
  the row reduction returns: entry \<open>(i, j)\<close> of \<open>G\<close> is what \<open>get_coeff\<close> returns for
  constraint \<open>i\<close> and monomial \<open>10 + j\<close> of the fixed ordering, that is, the block of
  columns 10 to 19 of the matrix as built.
\<close>

theorem groebner_basis_is_unreduced_block:
  assumes "has_dims 10 10 groebner_basis" "10 \<le> length constraints"
  shows "\<exists>G. (\<forall>la. compute_groebner_basis la constraints groebner_basis = Some G) \<and>
             has_dims 10 10 G \<and>
             (\<forall>i<10. \<forall>j<10. G ! i ! j =
                (case monomial_order ! (j + 10) of
                   (a, b, c) \<Rightarrow> get_coeff (constraints ! i) a b c))"
proof -
  let ?G = "map (\<lambda>i. map (\<lambda>j. coefficient_matrix constraints ! i ! (j + 10)) [0..<10]) [0..<10]"
  have run: "\<forall>la. compute_groebner_basis la constraints groebner_basis = Some ?G"
    using assms by (simp add: compute_groebner_basis_unreduced del: upt.simps upt_rec_numeral)
  have dims: "has_dims 10 10 ?G"
    by (simp add: has_dims_def list_all_iff del: upt.simps upt_rec_numeral)
  have entries: "?G ! i ! j =
      (case monomial_order ! (j + 10) of (a, b, c) \<Rightarrow> get_coeff (constraints ! i) a b c)"
    if "i < 10" "j < 10" for i j
  proof -
    have "?G ! i ! j = coefficient_matrix constraints ! i ! (j + 10)"
      using that by (simp del: upt.simps upt_rec_numeral)
    also have "\<dots> = (case monomial_order ! (j + 10) of
                       (a, b, c) \<Rightarrow> get_coeff (constraints ! i) a b c)"
      using that by (intro coefficient_matrix_entry) simp_all
    finally show ?thesis .
  qed
  from run dims entries show ?thesis by blast
qed

theorem groebner_basis_is_unreduced_block_witness:
  "has_dims 10 10 (new_matrix 10 10) \<and> 10 \<le> length single_term_constraints \<and>
   compute_groebner_basis (sample_backend\<lparr>row_reduce := rref\<rparr>) single_term_constraints
     (new_matrix 10 10) =
     Some [[- 1, - 1, - 1, - 1, - 1, - 1, - 1, - 1, - 1, - 1],
      [- 1, - 1, - 1, - 1, - 1, - 1, - 1, - 1, - 1, - 1],
      [- 1, - 1, - 1, - 1, - 1, - 1, - 1, - 1, - 1, - 1],
      [- 1, - 1, - 1, - 1, - 1, - 1, - 1, - 1, - 1, - 1],
      [- 1, - 1, - 1, - 1, - 1, - 1, - 1, - 1, - 1, - 1],
      [- 1, - 1, - 1, - 1, - 1, - 1, - 1, - 1, - 1, - 1],
      [- 1, - 1, - 1, - 1, - 1, - 1, - 1, - 1, - 1, - 1],
      [- 1, - 1, - 1, - 1, - 1, - 1, - 1, - 1, - 1, - 1],
      [- 1, - 1, - 1, - 1, - 1, - 1, - 1, - 1, - 1, - 1],
      [- 1, - 1, - 1, - 1, - 1, - 1, - 1, - 1, - 1, - 1]] \<and>
   map (take 10) (rref (coefficient_matrix single_term_constraints)) =
     [[1, 0, 0, 0, 0, 0, 0, 0, 0, 0],
      [0, 1, 0, 0, 0, 0, 0, 0, 0, 0],
      [0, 0, 1, 0, 0, 0, 0, 0, 0, 0],
      [0, 0, 0, 1, 0, 0, 0, 0, 0, 0],
      [0, 0, 0, 0, 1, 0, 0, 0, 0, 0],
      [0, 0, 0, 0, 0, 1, 0, 0, 0, 0],
      [0, 0, 0, 0, 0, 0, 1, 0, 0, 0],
      [0, 0, 0, 0, 0, 0, 0, 1, 0, 0],
      [0, 0, 0, 0, 0, 0, 0, 0, 1, 0],
      [0, 0, 0, 0, 0, 0, 0, 0, 0, 1]] \<and>
   map (drop 10) (rref (coefficient_matrix single_term_constraints)) =
     [[1, 1, 1, 1, 1, 1, 1, 1, 1, 1],
      [1, 1, 1, 1, 1, 1, 1, 1, 1, 1],
      [1, 1, 1, 1, 1, 1, 1, 1, 1, 1],
      [1, 1, 1, 1, 1, 1, 1, 1, 1, 1],
      [1, 1, 1, 1, 1, 1, 1, 1, 1, 1],
      [1, 1, 1, 1, 1, 1, 1, 1, 1, 1],
      [1, 1, 1, 1, 1, 1, 1, 1, 1, 1],
      [1, 1, 1, 1, 1, 1, 1, 1, 1, 1],
      [1, 1, 1, 1, 1, 1, 1, 1, 1, 1],
      [1, 1, 1, 1, 1, 1, 1, 1, 1, 1]]"
proof -
  have d: "has_dims 10 10 (new_matrix 10 10)"
    by (rule has_dims_new_matrix)
  have l: "10 \<le> length single_term_constraints"
    by (simp add: single_term_constraints_def)
  obtain G where G: "\<forall>la. compute_groebner_basis la single_term_constraints (new_matrix 10 10)
                          = Some G"
    using groebner_basis_is_unreduced_block [OF d l] by blast
  have "compute_groebner_basis sample_backend single_term_constraints (new_matrix 10 10) =
     Some [[- 1, - 1, - 1, - 1, - 1, - 1, - 1, - 1, - 1, - 1],
      [- 1, - 1, - 1, - 1, - 1, - 1, - 1, - 1, - 1, - 1],
      [- 1, - 1, - 1, - 1, - 1, - 1, - 1, - 1, - 1, - 1],
      [- 1, - 1, - 1, - 1, - 1, - 1, - 1, - 1, - 1, - 1],
      [- 1, - 1, - 1, - 1, - 1, - 1, - 1, - 1, - 1, - 1],
      [- 1, - 1, - 1, - 1, - 1, - 1, - 1, - 1, - 1, - 1],
      [- 1, - 1, - 1, - 1, - 1, - 1, - 1, - 1, - 1, - 1],
      [- 1, - 1, - 1, - 1, - 1, - 1, - 1, - 1, - 1, - 1],
      [- 1, - 1, - 1, - 1, - 1, - 1, - 1, - 1, - 1, - 1],
      [- 1, - 1, - 1, - 1, - 1, - 1, - 1, - 1, - 1, - 1]]"
    unfolding compute_groebner_basis_unreduced coefficient_matrix_single_term
    by (simp add: has_dims_new_matrix single_term_constraints_def upt_rec)
  with G have "G =
     [[- 1, - 1, - 1, - 1, - 1, - 1, - 1, - 1, - 1, - 1],
      [- 1, - 1, - 1, - 1, - 1, - 1, - 1, - 1, - 1, - 1],
      [- 1, - 1, - 1, - 1, - 1, - 1, - 1, - 1, - 1, - 1],
      [- 1, - 1, - 1, - 1, - 1, - 1, - 1, - 1, - 1, - 1],
      [- 1, - 1, - 1, - 1, - 1, - 1, - 1, - 1, - 1, - 1],
      [- 1, - 1, - 1, - 1, - 1, - 1, - 1, - 1, - 1, - 1],
      [- 1, - 1, - 1, - 1, - 1, - 1, - 1, - 1, - 1, - 1],
      [- 1, - 1, - 1, - 1, - 1, - 1, - 1, - 1, - 1, - 1],
      [- 1, - 1, - 1, - 1, - 1, - 1, - 1, - 1, - 1, - 1],
      [- 1, - 1, - 1, - 1, - 1, - 1, - 1, - 1, - 1, - 1]]"
    by simp
  with G have a: "compute_groebner_basis (sample_backend\<lparr>row_reduce := rref\<rparr>)
             single_term_constraints (new_matrix 10 10) =
     Some [[- 1, - 1, - 1, - 1, - 1, - 1, - 1, - 1, - 1, - 1],
      [- 1, - 1, - 1, - 1, - 1, - 1, - 1, - 1, - 1, - 1],
      [- 1, - 1, - 1, - 1, - 1, - 1, - 1, - 1, - 1, - 1],
      [- 1, - 1, - 1, - 1, - 1, - 1, - 1, - 1, - 1, - 1],
      [- 1, - 1, - 1, - 1, - 1, - 1, - 1, - 1, - 1, - 1],
      [- 1, - 1, - 1, - 1, - 1, - 1, - 1, - 1, - 1, - 1],
      [- 1, - 1, - 1, - 1, - 1, - 1, - 1, - 1, - 1, - 1],
      [- 1, - 1, - 1, - 1, - 1, - 1, - 1, - 1, - 1, - 1],
      [- 1, - 1, - 1, - 1, - 1, - 1, - 1, - 1, - 1, - 1],
      [- 1, - 1, - 1, - 1, - 1, - 1, - 1, - 1, - 1, - 1]]"
    by simp
  have b: "map (take 10) (rref (coefficient_matrix single_term_constraints)) =
     [[1, 0, 0, 0, 0, 0, 0, 0, 0, 0],
      [0, 1, 0, 0, 0, 0, 0, 0, 0, 0],
      [0, 0, 1, 0, 0, 0, 0, 0, 0, 0],
      [0, 0, 0, 1, 0, 0, 0, 0, 0, 0],
      [0, 0, 0, 0, 1, 0, 0, 0, 0, 0],
      [0, 0, 0, 0, 0, 1, 0, 0, 0, 0],
      [0, 0, 0, 0, 0, 0, 1, 0, 0, 0],
      [0, 0, 0, 0, 0, 0, 0, 1, 0, 0],
      [0, 0, 0, 0, 0, 0, 0, 0, 1, 0],
      [0, 0, 0, 0, 0, 0, 0, 0, 0, 1]]"
    unfolding coefficient_matrix_single_term
    by (simp add: rref_def eliminate_def Let_def upt_rec)
  have c: "map (drop 10) (rref (coefficient_matrix single_term_constraints)) =
     [[1, 1, 1, 1, 1, 1, 1, 1, 1, 1],
      [1, 1, 1, 1, 1, 1, 1, 1, 1, 1],
      [1, 1, 1, 1, 1, 1, 1, 1, 1, 1],
      [1, 1, 1, 1, 1, 1, 1, 1, 1, 1],
      [1, 1, 1, 1, 1, 1, 1, 1, 1, 1],
      [1, 1, 1, 1, 1, 1, 1, 1, 1, 1],
      [1, 1, 1, 1, 1, 1, 1, 1, 1, 1],
      [1, 1, 1, 1, 1, 1, 1, 1, 1, 1],
      [1, 1, 1, 1, 1, 1, 1, 1, 1, 1],
      [1, 1, 1, 1, 1, 1, 1, 1, 1, 1]]"
    unfolding coefficient_matrix_single_term
    by (simp add: rref_def eliminate_def Let_def upt_rec)
  from d l a b c show ?thesis by (intro conjI)
qed

end
